theory Spec2Isabelle
  imports Main
begin

section \<open>JavaScript values\<close>

text \<open>
  The values the helper handles: the \<open>scopes\<close> argument of the constructor, the parsed
  credentials document and the token. A number is carried by its canonical rendering
  (what \<open>String(n)\<close> gives), since the program never computes with numbers: it only
  converts values to strings and tests them for truthiness. An array is dense (no holes),
  an object is the list of its own properties in insertion order.
\<close>

datatype jsval =
    JUndefined
  | JNull
  | JBool bool
  | JNum string
  | JStr string
  | JArr "jsval list"
  | JObj "(string \<times> jsval) list"

text \<open>An error object: its \<open>name\<close>, its \<open>message\<close> and, for system errors, its \<open>code\<close>.\<close>

datatype exn = Exn (exn_name: string) (exn_message: string) (exn_code: "string option")

text \<open>\<open>Error.prototype.toString\<close>, used when an error is appended to a string.\<close>

definition exn_to_string :: "exn \<Rightarrow> string" where
  "exn_to_string e =
     (if exn_name e = [] then exn_message e
      else if exn_message e = [] then exn_name e
      else exn_name e @ '': '' @ exn_message e)"

text \<open>\<open>Array.isArray\<close>.\<close>

fun isArray :: "jsval \<Rightarrow> bool" where
  "isArray (JArr xs) = True"
| "isArray v = False"

text \<open>Truthiness (\<open>ToBoolean\<close>) and the operator \<open>a || b\<close>.\<close>

fun truthy :: "jsval \<Rightarrow> bool" where
  "truthy JUndefined = False"
| "truthy JNull = False"
| "truthy (JBool b) = b"
| "truthy (JNum r) = (r \<noteq> ''0'' \<and> r \<noteq> ''NaN'')"
| "truthy (JStr s) = (s \<noteq> [])"
| "truthy (JArr xs) = True"
| "truthy (JObj kvs) = True"

definition js_or :: "jsval \<Rightarrow> jsval \<Rightarrow> jsval" where
  "js_or a b = (if truthy a then a else b)"

text \<open>
  \<open>ToString\<close>, as applied by \<open>'...' + v\<close>. An array is the comma-joined rendering of
  its elements, with \<open>undefined\<close> and \<open>null\<close> elements rendered empty. An object is a
  plain object (its prototype is \<open>Object.prototype\<close>) and no value of \<open>jsval\<close> is
  callable: an object with an own property \<open>toString\<close> has no method that converts it,
  and the conversion throws a TypeError; any other object is \<open>[object Object]\<close>. In an
  array the elements are converted in order and the first failure is thrown.
\<close>

definition not_primitive :: exn where
  "not_primitive = Exn ''TypeError'' ''Cannot convert object to primitive value'' None"

fun join_comma :: "string list \<Rightarrow> string" where
  "join_comma [] = []"
| "join_comma [s] = s"
| "join_comma (s # t # ss) = s @ '','' @ join_comma (t # ss)"

fun js_to_string :: "jsval \<Rightarrow> exn + string"
  and js_join :: "jsval list \<Rightarrow> exn + string list" where
  "js_to_string JUndefined = Inr ''undefined''"
| "js_to_string JNull = Inr ''null''"
| "js_to_string (JBool b) = Inr (if b then ''true'' else ''false'')"
| "js_to_string (JNum r) = Inr r"
| "js_to_string (JStr s) = Inr s"
| "js_to_string (JArr xs) =
     (case js_join xs of Inl e \<Rightarrow> Inl e | Inr ss \<Rightarrow> Inr (join_comma ss))"
| "js_to_string (JObj kvs) =
     (case map_of kvs ''toString'' of
        None \<Rightarrow> Inr ''[object Object]''
      | Some m \<Rightarrow> Inl not_primitive)"
| "js_join [] = Inr []"
| "js_join (x # xs) =
     (case (if x = JUndefined \<or> x = JNull then Inr [] else js_to_string x) of
        Inl e \<Rightarrow> Inl e
      | Inr s \<Rightarrow> (case js_join xs of Inl e \<Rightarrow> Inl e | Inr ss \<Rightarrow> Inr (s # ss)))"

text \<open>An optional string (an environment variable) as a value.\<close>

fun js_of_opt :: "string option \<Rightarrow> jsval" where
  "js_of_opt None = JUndefined"
| "js_of_opt (Some s) = JStr s"

text \<open>\<open>a || b\<close> for an argument \<open>a\<close> that is a text or omitted, and a text \<open>b\<close>.\<close>

fun str_or :: "string option \<Rightarrow> string \<Rightarrow> string" where
  "str_or None b = b"
| "str_or (Some a) b = (if a \<noteq> [] then a else b)"

section \<open>The constructor\<close>

text \<open>
  Every operation returns its result together with the external calls (file system,
  console, network) it made, in order.
\<close>

datatype logarg = LStr string | LErr exn

datatype event =
    ReadFile string
  | ConsoleError string
  | ConsoleLog "logarg list"
  | Question string
  | RlClose
  | GetToken string
  | MkdirSync string
  | WriteFile string string
  | WriteFileDone "exn option"
  | Resolve
  | Reject exn

text \<open>The three home-directory variables of \<open>process.env\<close>.\<close>

record env =
  HOME :: "string option"
  HOMEPATH :: "string option"
  USERPROFILE :: "string option"

record google_authorize =
  SCOPES :: "string list"
  TOKEN_DIR :: string
  TOKEN_PATH :: string
  credentialsPath :: string

definition base_url :: string where
  "base_url = ''https://www.googleapis.com/auth/''"

text \<open>
  The loop of lines 28 to 32: \<open>forEach\<close> over the array, each round pushing the prefixed
  scope at the end of \<open>_scopes\<close>. An exception of the concatenation ends the loop and
  the constructor.
\<close>

fun forEach_push :: "string list \<Rightarrow> jsval list \<Rightarrow> exn + string list" where
  "forEach_push acc [] = Inr acc"
| "forEach_push acc (scope # rest) =
     (case js_to_string scope of
        Inl e \<Rightarrow> Inl e
      | Inr s \<Rightarrow> forEach_push (acc @ [base_url @ s]) rest)"

definition constructor ::
  "jsval \<Rightarrow> string option \<Rightarrow> env \<Rightarrow> (exn + google_authorize) \<times> event list" where
  "constructor scopes path_arg e =
     (if \<not> isArray scopes then
        (Inl (Exn ''Error'' ''Initialize with array of scope names.'' None), [])
      else
        (case js_or scopes (JArr []) of
           JArr xs \<Rightarrow>
             (case forEach_push [] xs of
                Inl err \<Rightarrow> (Inl err, [])
              | Inr prefixed \<Rightarrow>
                  (case js_to_string
                          (js_or (js_or (js_of_opt (HOME e)) (js_of_opt (HOMEPATH e)))
                                 (js_of_opt (USERPROFILE e))) of
                     Inl err \<Rightarrow> (Inl err, [])
                   | Inr home \<Rightarrow>
                       (let dir = home @ ''/.credentials/''
                        in (Inr \<lparr> SCOPES = prefixed,
                                  TOKEN_DIR = dir,
                                  TOKEN_PATH = dir @ ''googleapis.json'',
                                  credentialsPath = str_or path_arg ''credentials.json'' \<rparr>,
                            []))))
         | _ \<Rightarrow> (Inl (Exn ''TypeError'' ''forEach is not a function'' None), [])))"

section \<open>The OAuth2 client and the credentials document\<close>

text \<open>
  Reading a property of a value, for the plain names the program reads (\<open>installed\<close>,
  \<open>client_secret\<close>, \<open>client_id\<close>, \<open>redirect_uris\<close>: none is an array index or
  a built-in property). Reading a property of \<open>undefined\<close> or \<open>null\<close> throws a
  TypeError (the engine's wording of the message is not modelled); a missing property
  reads as \<open>undefined\<close>. The keys of an object are distinct.
\<close>

definition type_error :: "string \<Rightarrow> exn" where
  "type_error p = Exn ''TypeError'' (''Cannot read property '' @ p) None"

fun js_get :: "jsval \<Rightarrow> string \<Rightarrow> exn + jsval" where
  "js_get JUndefined p = Inl (type_error p)"
| "js_get JNull p = Inl (type_error p)"
| "js_get (JObj kvs) p = Inr (case map_of kvs p of Some v \<Rightarrow> v | None \<Rightarrow> JUndefined)"
| "js_get v p = Inr JUndefined"

text \<open>The element read \<open>v[0]\<close>.\<close>

fun js_get0 :: "jsval \<Rightarrow> exn + jsval" where
  "js_get0 JUndefined = Inl (type_error ''0'')"
| "js_get0 JNull = Inl (type_error ''0'')"
| "js_get0 (JArr xs) = Inr (case xs of [] \<Rightarrow> JUndefined | x # rest \<Rightarrow> x)"
| "js_get0 (JStr s) = Inr (case s of [] \<Rightarrow> JUndefined | c # rest \<Rightarrow> JStr [c])"
| "js_get0 (JObj kvs) = Inr (case map_of kvs ''0'' of Some v \<Rightarrow> v | None \<Rightarrow> JUndefined)"
| "js_get0 v = Inr JUndefined"

text \<open>
  The client object of google-auth-library: \<open>new auth.OAuth2(clientId, clientSecret,
  redirectUrl)\<close> stores its arguments and starts with empty credentials.
\<close>

record oauth2client =
  clientId :: jsval
  clientSecret :: jsval
  redirectUrl :: jsval
  credentials :: jsval

definition new_OAuth2 :: "jsval \<Rightarrow> jsval \<Rightarrow> jsval \<Rightarrow> oauth2client" where
  "new_OAuth2 cid cs ru =
     \<lparr> clientId = cid, clientSecret = cs, redirectUrl = ru, credentials = JObj [] \<rparr>"

text \<open>
  Lines 71 to 75 of \<open>_authorize\<close>: the three reads, in the order of the source, then the
  client. Each read of \<open>credentials.installed\<close> is made anew, as the source does.
\<close>

definition make_client :: "jsval \<Rightarrow> exn + oauth2client" where
  "make_client creds =
     (case js_get creds ''installed'' of
        Inl e \<Rightarrow> Inl e
      | Inr i1 \<Rightarrow>
     (case js_get i1 ''client_secret'' of
        Inl e \<Rightarrow> Inl e
      | Inr clientSecret_v \<Rightarrow>
     (case js_get creds ''installed'' of
        Inl e \<Rightarrow> Inl e
      | Inr i2 \<Rightarrow>
     (case js_get i2 ''client_id'' of
        Inl e \<Rightarrow> Inl e
      | Inr clientId_v \<Rightarrow>
     (case js_get creds ''installed'' of
        Inl e \<Rightarrow> Inl e
      | Inr i3 \<Rightarrow>
     (case js_get i3 ''redirect_uris'' of
        Inl e \<Rightarrow> Inl e
      | Inr uris \<Rightarrow>
     (case js_get0 uris of
        Inl e \<Rightarrow> Inl e
      | Inr redirectUrl_v \<Rightarrow> Inr (new_OAuth2 clientId_v clientSecret_v redirectUrl_v))))))))"

section \<open>The platform and the world\<close>

text \<open>
  What the helper calls and this repository does not contain: the built-in
  \<open>JSON.parse\<close> (an error value is the SyntaxError it throws) and \<open>JSON.stringify\<close>, and
  the library's \<open>generateAuthUrl\<close>, which receives the client and the options
  \<open>access_type\<close> and \<open>scope\<close>. They are parameters of the model.
  \<open>json_stringify\<close> is the text \<open>JSON.stringify\<close> returns, which it does for every
  value of \<open>jsval\<close> but \<open>undefined\<close>; \<open>JSON.stringify(undefined)\<close> is \<open>undefined\<close>.
\<close>

record platform =
  json_parse :: "string \<Rightarrow> exn + jsval"
  json_stringify :: "jsval \<Rightarrow> string"
  generateAuthUrl :: "oauth2client \<Rightarrow> string \<Rightarrow> string list \<Rightarrow> string"

text \<open>
  What the outside answers: the result \<open>fs.readFile\<close> hands to its callback for a path
  (an error or the content), whether \<open>fs.mkdirSync\<close> throws, the error \<open>fs.writeFile\<close>
  hands to its callback, the line typed at the prompt (\<open>None\<close>: no line ever arrives,
  the prompt has no timeout) and the result the token endpoint gives for a code.
\<close>

record world =
  read_file :: "string \<Rightarrow> exn + string"
  mkdir_sync :: "string \<Rightarrow> exn option"
  write_file :: "string \<Rightarrow> string \<Rightarrow> exn option"
  stdin_line :: "string option"
  get_token :: "oauth2client \<Rightarrow> string \<Rightarrow> exn + jsval"

section \<open>The token store\<close>

text \<open>
  The callback of \<open>fs.writeFile\<close> (lines 137 to 139) runs when the write has completed,
  in a later turn of the event loop: it marks the completion and throws the error it is
  given, if any.
\<close>

definition write_callback :: "exn option \<Rightarrow> event list \<times> exn option" where
  "write_callback err =
     ([WriteFileDone err], (case err of Some e \<Rightarrow> Some e | None \<Rightarrow> None))"

text \<open>
  \<open>fs.writeFile\<close> checks its data argument before it touches the file system: for
  \<open>undefined\<close> it throws this TypeError from the call itself.
\<close>

definition invalid_data :: exn where
  "invalid_data =
     Exn ''TypeError''
       ''The data argument must be of type string or an instance of Buffer, TypedArray, or DataView. Received undefined''
       (Some ''ERR_INVALID_ARG_TYPE'')"

text \<open>
  \<open>storeToken\<close>: \<open>thrown\<close> is the exception the call throws, \<open>events\<close> what it does before
  it returns, \<open>deferred\<close> what its queued callback does after the caller has returned to
  the event loop, and \<open>deferred_throw\<close> the exception that callback throws.
  \<open>write_and_log\<close> is lines 137 to 140, reached when \<open>fs.mkdirSync\<close> has returned or
  its error has been swallowed.
\<close>

record store_result =
  thrown :: "exn option"
  events :: "event list"
  deferred :: "event list"
  deferred_throw :: "exn option"

definition write_and_log :: "platform \<Rightarrow> world \<Rightarrow> google_authorize \<Rightarrow> jsval \<Rightarrow> store_result" where
  "write_and_log L W self token =
     (if token = JUndefined then
        \<lparr> thrown = Some invalid_data, events = [MkdirSync (TOKEN_DIR self)],
          deferred = [], deferred_throw = None \<rparr>
      else
        (let data = json_stringify L token;
             cb = write_callback (write_file W (TOKEN_PATH self) data)
         in \<lparr> thrown = None,
              events = [MkdirSync (TOKEN_DIR self),
                        WriteFile (TOKEN_PATH self) data,
                        ConsoleLog [LStr (''Token stored to '' @ TOKEN_PATH self)]],
              deferred = fst cb,
              deferred_throw = snd cb \<rparr>))"

definition storeToken :: "platform \<Rightarrow> world \<Rightarrow> google_authorize \<Rightarrow> jsval \<Rightarrow> store_result" where
  "storeToken L W self token =
     (case mkdir_sync W (TOKEN_DIR self) of
        None \<Rightarrow> write_and_log L W self token
      | Some err \<Rightarrow>
          if exn_code err \<noteq> Some ''EEXIST'' then
            \<lparr> thrown = Some err, events = [MkdirSync (TOKEN_DIR self)],
              deferred = [], deferred_throw = None \<rparr>
          else write_and_log L W self token)"

text \<open>Everything one call of \<open>storeToken\<close> causes, in the order it happens.\<close>

definition store_trace :: "store_result \<Rightarrow> event list" where
  "store_trace s = events s @ deferred s"

text \<open>The position of the first occurrence of an event in a trace.\<close>

fun position :: "event \<Rightarrow> event list \<Rightarrow> nat option" where
  "position a [] = None"
| "position a (x # xs) =
     (if x = a then Some 0 else (case position a xs of None \<Rightarrow> None | Some n \<Rightarrow> Some (Suc n)))"

section \<open>The authorization flow\<close>

datatype promise = Pending | Resolved oauth2client | Rejected exn

text \<open>
  One run of \<open>authorize()\<close>: the external calls in order (with the calls of \<open>resolve\<close>
  and \<open>reject\<close>), the final state of the returned promise, the exception that escaped a
  callback (nothing catches it), and the client object as the run left it.
\<close>

record run =
  trace :: "event list"
  outcome :: promise
  uncaught :: "exn option"
  oauth2Client :: "oauth2client option"

definition getNewToken :: "platform \<Rightarrow> world \<Rightarrow> google_authorize \<Rightarrow> oauth2client \<Rightarrow> run" where
  "getNewToken L W self cl =
     (let authUrl = generateAuthUrl L cl ''offline'' (SCOPES self);
          t0 = [ConsoleLog [LStr ''Authorize this app by visiting this url: '', LStr authUrl],
                Question ''Enter the code from that page here: '']
      in case stdin_line W of
           None \<Rightarrow>
             \<lparr> trace = t0, outcome = Pending, uncaught = None, oauth2Client = Some cl \<rparr>
         | Some code \<Rightarrow>
             (let t1 = t0 @ [RlClose, GetToken code]
              in case get_token W cl code of
                   Inl err \<Rightarrow>
                     \<lparr> trace = t1 @ [ConsoleLog [LStr ''Error while trying to retrieve access token'',
                                                  LErr err],
                                      Reject err],
                       outcome = Rejected err, uncaught = None, oauth2Client = Some cl \<rparr>
                 | Inr token \<Rightarrow>
                     (let cl' = cl\<lparr> credentials := token \<rparr>;
                          s = storeToken L W self token
                      in case thrown s of
                           Some e \<Rightarrow>
                             \<lparr> trace = t1 @ events s, outcome = Pending,
                               uncaught = Some e, oauth2Client = Some cl' \<rparr>
                         | None \<Rightarrow>
                             \<lparr> trace = t1 @ events s @ [Resolve] @ deferred s,
                               outcome = Resolved cl',
                               uncaught = deferred_throw s, oauth2Client = Some cl' \<rparr>)))"

text \<open>
  \<open>_authorize\<close>: the client is built before the promise is, so a TypeError of lines 71
  to 73 is thrown to the caller (\<open>Inl\<close>); otherwise the run of the promise it returns.
\<close>

definition priv_authorize :: "platform \<Rightarrow> world \<Rightarrow> google_authorize \<Rightarrow> jsval \<Rightarrow> exn + run" where
  "priv_authorize L W self creds =
     (case make_client creds of
        Inl e \<Rightarrow> Inl e
      | Inr cl \<Rightarrow>
          Inr (case read_file W (TOKEN_PATH self) of
                 Inl err \<Rightarrow>
                   (let r = getNewToken L W self cl
                    in r\<lparr> trace := ReadFile (TOKEN_PATH self) # trace r \<rparr>)
               | Inr token \<Rightarrow>
                   (case json_parse L token of
                      Inl e \<Rightarrow>
                        \<lparr> trace = [ReadFile (TOKEN_PATH self)], outcome = Pending,
                          uncaught = Some e, oauth2Client = Some cl \<rparr>
                    | Inr v \<Rightarrow>
                        \<lparr> trace = [ReadFile (TOKEN_PATH self), Resolve],
                          outcome = Resolved (cl\<lparr> credentials := v \<rparr>),
                          uncaught = None,
                          oauth2Client = Some (cl\<lparr> credentials := v \<rparr>) \<rparr>)))"

text \<open>
  \<open>authorize\<close>: the outer promise is resolved with the promise of \<open>_authorize\<close> and so
  takes its state; an exception thrown in the callback of \<open>fs.readFile\<close> leaves it
  pending.
\<close>

definition authorize :: "platform \<Rightarrow> world \<Rightarrow> google_authorize \<Rightarrow> run" where
  "authorize L W self =
     (case read_file W (credentialsPath self) of
        Inl err \<Rightarrow>
          \<lparr> trace = [ReadFile (credentialsPath self),
                     ConsoleError (''Error loading credentials.json file: '' @ exn_to_string err),
                     Reject err],
            outcome = Rejected err, uncaught = None, oauth2Client = None \<rparr>
      | Inr content \<Rightarrow>
          (case json_parse L content of
             Inl e \<Rightarrow>
               \<lparr> trace = [ReadFile (credentialsPath self)], outcome = Pending,
                 uncaught = Some e, oauth2Client = None \<rparr>
           | Inr creds \<Rightarrow>
               (case priv_authorize L W self creds of
                  Inl e \<Rightarrow>
                    \<lparr> trace = [ReadFile (credentialsPath self)], outcome = Pending,
                      uncaught = Some e, oauth2Client = None \<rparr>
                | Inr r \<Rightarrow> r\<lparr> trace := ReadFile (credentialsPath self) # trace r \<rparr>)))"

text \<open>The events of the token store and those of the interactive path.\<close>

fun is_store :: "event \<Rightarrow> bool" where
  "is_store (MkdirSync d) = True"
| "is_store (WriteFile p d) = True"
| "is_store (WriteFileDone r) = True"
| "is_store ev = False"

fun is_interactive :: "event \<Rightarrow> bool" where
  "is_interactive (ConsoleLog args) = True"
| "is_interactive (Question q) = True"
| "is_interactive RlClose = True"
| "is_interactive (GetToken c) = True"
| "is_interactive ev = False"

fun is_write :: "event \<Rightarrow> bool" where
  "is_write (WriteFile p d) = True"
| "is_write ev = False"

fun is_exchange :: "event \<Rightarrow> bool" where
  "is_exchange (GetToken c) = True"
| "is_exchange ev = False"

section \<open>Reading an authorization URL\<close>

text \<open>
  The scope parameter of a URL: the query is what follows the first \<open>?\<close>, its
  parameters are separated by \<open>&\<close>, a parameter is \<open>name=value\<close>, and the value is
  percent-decoded. \<open>url_has_scope url s\<close> says that the scope \<open>s\<close> occurs in the scope
  parameter of \<open>url\<close>.
\<close>

fun split_on :: "char \<Rightarrow> string \<Rightarrow> string list" where
  "split_on c [] = [[]]"
| "split_on c (x # xs) =
     (if x = c then [] # split_on c xs
      else (case split_on c xs of [] \<Rightarrow> [[x]] | w # ws \<Rightarrow> (x # w) # ws))"

definition query_of :: "string \<Rightarrow> string" where
  "query_of url = drop 1 (dropWhile (\<lambda>c. c \<noteq> CHR ''?'') url)"

definition key_value :: "string \<Rightarrow> string \<times> string" where
  "key_value p =
     (takeWhile (\<lambda>c. c \<noteq> CHR ''='') p, drop 1 (dropWhile (\<lambda>c. c \<noteq> CHR ''='') p))"

definition hex_value :: "char \<Rightarrow> nat option" where
  "hex_value c =
     (let n = (of_char c :: nat)
      in if 48 \<le> n \<and> n \<le> 57 then Some (n - 48)
         else if 65 \<le> n \<and> n \<le> 70 then Some (n - 55)
         else if 97 \<le> n \<and> n \<le> 102 then Some (n - 87)
         else None)"

fun percent_decode :: "string \<Rightarrow> string" where
  "percent_decode (c # a # b # rest) =
     (if c = CHR ''%'' then
        (case hex_value a of
           None \<Rightarrow> c # percent_decode (a # b # rest)
         | Some x \<Rightarrow>
             (case hex_value b of
                None \<Rightarrow> c # percent_decode (a # b # rest)
              | Some y \<Rightarrow> char_of (16 * x + y) # percent_decode rest))
      else c # percent_decode (a # b # rest))"
| "percent_decode cs = cs"

definition scope_param :: "string \<Rightarrow> string option" where
  "scope_param url =
     map_option percent_decode
       (map_of (map key_value (split_on CHR ''&'' (query_of url))) ''scope'')"

fun is_prefix :: "string \<Rightarrow> string \<Rightarrow> bool" where
  "is_prefix [] t = True"
| "is_prefix (c # s) [] = False"
| "is_prefix (c # s) (d # t) = (c = d \<and> is_prefix s t)"

fun occurs_in :: "string \<Rightarrow> string \<Rightarrow> bool" where
  "occurs_in s [] = (s = [])"
| "occurs_in s (c # t) = (is_prefix s (c # t) \<or> occurs_in s t)"

definition url_has_scope :: "string \<Rightarrow> string \<Rightarrow> bool" where
  "url_has_scope url s = (case scope_param url of None \<Rightarrow> False | Some v \<Rightarrow> occurs_in s v)"

section \<open>A sample installation\<close>

text \<open>
  A platform and worlds to evaluate the model on. The sample platform parses the two
  file contents below and refuses every other text, and it renders a token by a fixed
  text.
\<close>

definition sample_installed :: "(string \<times> jsval) list" where
  "sample_installed =
     [(''client_id'', JStr ''id-1''),
      (''client_secret'', JStr ''secret-1''),
      (''redirect_uris'', JArr [JStr ''urn:ietf:wg:oauth:2.0:oob'', JStr ''http://localhost''])]"

definition sample_creds :: jsval where
  "sample_creds = JObj [(''installed'', JObj sample_installed)]"

definition sample_token :: jsval where
  "sample_token =
     JObj [(''access_token'', JStr ''at-1''), (''refresh_token'', JStr ''rt-1''),
           (''expiry_date'', JNum ''1500000000000'')]"

definition sample_client :: oauth2client where
  "sample_client =
     \<lparr> clientId = JStr ''id-1'', clientSecret = JStr ''secret-1'',
       redirectUrl = JStr ''urn:ietf:wg:oauth:2.0:oob'', credentials = JObj [] \<rparr>"

fun join_space :: "string list \<Rightarrow> string" where
  "join_space [] = []"
| "join_space [s] = s"
| "join_space (s # t # ss) = s @ '' '' @ join_space (t # ss)"

text \<open>
  The sample \<open>generateAuthUrl\<close> percent-encodes the access type and the scopes, joined by
  spaces, as the two parameters of the query.
\<close>

definition hex_digit :: "nat \<Rightarrow> char" where
  "hex_digit k = ''0123456789ABCDEF'' ! k"

definition unreserved :: "char \<Rightarrow> bool" where
  "unreserved c =
     (c \<in> set ''ABCDEFGHIJKLMNOPQRSTUVWXYZabcdefghijklmnopqrstuvwxyz0123456789-_.~'')"

definition percent_encode_char :: "char \<Rightarrow> string" where
  "percent_encode_char c =
     (if unreserved c then [c]
      else [CHR ''%'', hex_digit (of_char c div 16), hex_digit (of_char c mod 16)])"

definition percent_encode :: "string \<Rightarrow> string" where
  "percent_encode s = concat (map percent_encode_char s)"

definition sample_generateAuthUrl :: "oauth2client \<Rightarrow> string \<Rightarrow> string list \<Rightarrow> string" where
  "sample_generateAuthUrl cl access scope =
     ''https://accounts.google.com/o/oauth2/auth?access_type='' @ percent_encode access
       @ ''&scope='' @ percent_encode (join_space scope)"

definition sample_platform :: platform where
  "sample_platform =
     \<lparr> json_parse = (\<lambda>s. if s = ''CREDENTIALS-JSON'' then Inr sample_creds
                          else if s = ''TOKEN-JSON'' then Inr sample_token
                          else Inl (Exn ''SyntaxError'' ''Unexpected token'' None)),
       json_stringify = (\<lambda>v. if v = sample_token then ''TOKEN-JSON'' else ''OTHER-JSON''),
       generateAuthUrl = sample_generateAuthUrl \<rparr>"

definition enoent :: "string \<Rightarrow> exn" where
  "enoent p = Exn ''Error'' (''ENOENT: no such file or directory, open '' @ p) (Some ''ENOENT'')"

definition sample_env :: env where
  "sample_env = \<lparr> HOME = Some ''/home/u'', HOMEPATH = None, USERPROFILE = None \<rparr>"

definition sample_self :: google_authorize where
  "sample_self =
     \<lparr> SCOPES = [''https://www.googleapis.com/auth/spreadsheets'',
                 ''https://www.googleapis.com/auth/drive''],
       TOKEN_DIR = ''/home/u/.credentials/'',
       TOKEN_PATH = ''/home/u/.credentials/googleapis.json'',
       credentialsPath = ''credentials.json'' \<rparr>"

definition eexist :: "string \<Rightarrow> exn" where
  "eexist p = Exn ''Error'' (''EEXIST: file already exists, mkdir '' @ p) (Some ''EEXIST'')"

definition eacces :: "string \<Rightarrow> exn" where
  "eacces p = Exn ''Error'' (''EACCES: permission denied, mkdir '' @ p) (Some ''EACCES'')"

text \<open>
  The sample world: \<open>creds\<close> is what reading the credentials file gives, \<open>cache\<close> what
  reading the cache file gives, \<open>mk\<close> what creating the directory does, \<open>line\<close> the
  line typed, \<open>exch\<close> the answer of the token endpoint. Every write succeeds.
\<close>

definition sample_world ::
  "(exn + string) \<Rightarrow> (exn + string) \<Rightarrow> exn option \<Rightarrow> string option \<Rightarrow> (exn + jsval) \<Rightarrow> world" where
  "sample_world creds cache mk line exch =
     \<lparr> read_file = (\<lambda>p. if p = ''credentials.json'' then creds
                         else if p = ''/home/u/.credentials/googleapis.json'' then cache
                         else Inl (enoent p)),
       mkdir_sync = (\<lambda>d. mk),
       write_file = (\<lambda>p d. None),
       stdin_line = line,
       get_token = (\<lambda>cl code. exch) \<rparr>"

text \<open>Whether \<open>a\<close> first occurs in a trace before \<open>b\<close> first does.\<close>

definition happens_before :: "event \<Rightarrow> event \<Rightarrow> event list \<Rightarrow> bool" where
  "happens_before a b t =
     (case position a t of
        None \<Rightarrow> False
      | Some i \<Rightarrow> (case position b t of None \<Rightarrow> False | Some j \<Rightarrow> i < j))"

section \<open>Scope list\<close>

lemma forEach_push_map:
  "forEach_push acc (map JStr names) = Inr (acc @ map (\<lambda>n. base_url @ n) names)"
  by (induction names arbitrary: acc) simp_all

lemma forEach_push_names:
  "forEach_push [] (map JStr names) = Inr (map (\<lambda>n. base_url @ n) names)"
  by (simp add: forEach_push_map)

lemma js_or_array: "js_or (JArr xs) b = JArr xs"
  by (simp add: js_or_def)

text \<open>The home directory is a text or \<open>undefined\<close>: its conversion does not fail.\<close>

lemma home_to_string:
  "\<exists>home. js_to_string (js_or (js_or (js_of_opt a) (js_of_opt b)) (js_of_opt c)) = Inr home"
  by (cases a; cases b; cases c) (simp_all add: js_or_def)

text \<open>
  C1. For every array of scope short-names, the constructor succeeds and the constructed
  scope list is the input list with every element prefixed by the base URL
  \<open>https://www.googleapis.com/auth/\<close>, in the same order and of the same length.
\<close>

theorem scopes_prefixed:
  "\<exists>self. constructor (JArr (map JStr names)) path_arg e = (Inr self, [])
     \<and> SCOPES self = map (\<lambda>n. ''https://www.googleapis.com/auth/'' @ n) names
     \<and> length (SCOPES self) = length names"
proof -
  obtain home where
    "js_to_string (js_or (js_or (js_of_opt (HOME e)) (js_of_opt (HOMEPATH e)))
                         (js_of_opt (USERPROFILE e))) = Inr home"
    using home_to_string by blast
  then show ?thesis
    by (simp add: constructor_def js_or_array Let_def forEach_push_names base_url_def)
qed

theorem scopes_prefixed_witness:
  "\<exists>self. constructor (JArr [JStr ''spreadsheets'', JStr ''drive'']) None sample_env = (Inr self, [])
     \<and> SCOPES self = [''https://www.googleapis.com/auth/spreadsheets'',
                       ''https://www.googleapis.com/auth/drive'']"
  using scopes_prefixed [of "[''spreadsheets'', ''drive'']" None sample_env]
  by auto

section \<open>Failures of the constructor\<close>

text \<open>
  C3. For every value of \<open>scopes\<close> that is not an array, the constructor throws the error
  \<open>Initialize with array of scope names.\<close> and has made no external call: it has read,
  created and written no file.
\<close>

theorem non_array_scopes_throw:
  "\<not> isArray scopes \<Longrightarrow>
     constructor scopes path_arg e =
       (Inl (Exn ''Error'' ''Initialize with array of scope names.'' None), [])"
  by (simp add: constructor_def)

theorem non_array_scopes_throw_witness:
  "\<not> isArray (JStr ''spreadsheets'')
   \<and> constructor (JStr ''spreadsheets'') None sample_env =
       (Inl (Exn ''Error'' ''Initialize with array of scope names.'' None), [])
   \<and> \<not> isArray JUndefined
   \<and> constructor JUndefined (Some ''c.json'') sample_env =
       (Inl (Exn ''Error'' ''Initialize with array of scope names.'' None), [])"
proof -
  have s: "\<not> isArray (JStr ''spreadsheets'')" and u: "\<not> isArray JUndefined"
    by simp_all
  from non_array_scopes_throw [OF s, of None sample_env]
       non_array_scopes_throw [OF u, of "Some ''c.json''" sample_env] s u
  show ?thesis by simp
qed

text \<open>
  C10. If none of \<open>HOME\<close>, \<open>HOMEPATH\<close> and \<open>USERPROFILE\<close> is defined, the constructor
  does not fail for that: given an array of scope short-names it returns the object, the
  token directory is the text \<open>undefined/.credentials/\<close> and the cache path
  \<open>undefined/.credentials/googleapis.json\<close>.
\<close>

theorem undefined_home:
  assumes "HOME e = None" and "HOMEPATH e = None" and "USERPROFILE e = None"
  shows "\<exists>self. constructor (JArr (map JStr names)) path_arg e = (Inr self, [])
           \<and> TOKEN_DIR self = ''undefined/.credentials/''
           \<and> TOKEN_PATH self = ''undefined/.credentials/googleapis.json''"
  using assms by (simp add: constructor_def js_or_array js_or_def Let_def forEach_push_names)

theorem undefined_home_witness:
  "HOME \<lparr> HOME = None, HOMEPATH = None, USERPROFILE = None \<rparr> = None
   \<and> HOMEPATH \<lparr> HOME = None, HOMEPATH = None, USERPROFILE = None \<rparr> = None
   \<and> USERPROFILE \<lparr> HOME = None, HOMEPATH = None, USERPROFILE = None \<rparr> = None
   \<and> (\<exists>self. constructor (JArr [JStr ''drive'']) None
                 \<lparr> HOME = None, HOMEPATH = None, USERPROFILE = None \<rparr> = (Inr self, [])
         \<and> TOKEN_DIR self = ''undefined/.credentials/''
         \<and> TOKEN_PATH self = ''undefined/.credentials/googleapis.json'')"
proof -
  have h: "HOME \<lparr> HOME = None, HOMEPATH = None, USERPROFILE = None \<rparr> = None"
    and p: "HOMEPATH \<lparr> HOME = None, HOMEPATH = None, USERPROFILE = None \<rparr> = None"
    and u: "USERPROFILE \<lparr> HOME = None, HOMEPATH = None, USERPROFILE = None \<rparr> = None"
    by simp_all
  from undefined_home [OF h p u, of "[''drive'']" None] h p u
  show ?thesis by simp
qed

section \<open>The credentials file and the cached token\<close>

lemma make_client_ok:
  assumes "map_of kvs ''installed'' = Some (JObj ikvs)"
      and "map_of ikvs ''client_id'' = Some cid"
      and "map_of ikvs ''client_secret'' = Some cs"
      and "map_of ikvs ''redirect_uris'' = Some (JArr (ru # rus))"
  shows "make_client (JObj kvs) =
           Inr \<lparr> clientId = cid, clientSecret = cs, redirectUrl = ru, credentials = JObj [] \<rparr>"
  using assms by (simp add: make_client_def new_OAuth2_def)

text \<open>What \<open>authorize\<close> does once the credentials are read, parsed and the client built.\<close>

lemma authorize_read_ok:
  assumes "read_file W (credentialsPath self) = Inr content"
      and "json_parse L content = Inr creds"
      and "make_client creds = Inr cl"
  shows "authorize L W self =
           (case read_file W (TOKEN_PATH self) of
              Inl err \<Rightarrow>
                (let r = getNewToken L W self cl
                 in r\<lparr> trace := ReadFile (credentialsPath self) # ReadFile (TOKEN_PATH self) # trace r \<rparr>)
            | Inr token \<Rightarrow>
                (case json_parse L token of
                   Inl e \<Rightarrow>
                     \<lparr> trace = [ReadFile (credentialsPath self), ReadFile (TOKEN_PATH self)],
                       outcome = Pending, uncaught = Some e, oauth2Client = Some cl \<rparr>
                 | Inr v \<Rightarrow>
                     \<lparr> trace = [ReadFile (credentialsPath self), ReadFile (TOKEN_PATH self), Resolve],
                       outcome = Resolved (cl\<lparr> credentials := v \<rparr>),
                       uncaught = None,
                       oauth2Client = Some (cl\<lparr> credentials := v \<rparr>) \<rparr>))"
  using assms
  by (simp add: authorize_def priv_authorize_def Let_def split: sum.splits)

text \<open>The sample installation satisfies the hypotheses on the credentials file.\<close>

lemma sample_read_creds:
  "read_file (sample_world (Inr ''CREDENTIALS-JSON'') cache mk line exch)
     (credentialsPath sample_self) = Inr ''CREDENTIALS-JSON''"
  by (simp add: sample_world_def sample_self_def)

lemma sample_read_cache:
  "read_file (sample_world creds cache mk line exch) (TOKEN_PATH sample_self) = cache"
  by (simp add: sample_world_def sample_self_def)

lemma sample_parse_creds:
  "json_parse sample_platform ''CREDENTIALS-JSON'' = Inr (JObj [(''installed'', JObj sample_installed)])"
  by (simp add: sample_platform_def sample_creds_def)

lemma sample_parse_token: "json_parse sample_platform ''TOKEN-JSON'' = Inr sample_token"
  by (simp add: sample_platform_def)

lemma sample_installed_fields:
  "map_of [(''installed'', JObj sample_installed)] ''installed'' = Some (JObj sample_installed)"
  "map_of sample_installed ''client_id'' = Some (JStr ''id-1'')"
  "map_of sample_installed ''client_secret'' = Some (JStr ''secret-1'')"
  "map_of sample_installed ''redirect_uris'' =
     Some (JArr (JStr ''urn:ietf:wg:oauth:2.0:oob'' # [JStr ''http://localhost'']))"
  by (simp_all add: sample_installed_def)

text \<open>
  C2. For a credentials file that holds a client id, a secret and a redirect URI: if the
  read of the cache file succeeds (and its content parses), \<open>authorize()\<close> resolves with
  a client whose credentials are the parsed content of the cache file, and the
  interactive path is not taken: nothing is printed, no prompt is shown and no token
  exchange is made.
\<close>

theorem cached_token_resolves:
  assumes "read_file W (credentialsPath self) = Inr content"
      and "json_parse L content = Inr (JObj kvs)"
      and "map_of kvs ''installed'' = Some (JObj ikvs)"
      and "map_of ikvs ''client_id'' = Some cid"
      and "map_of ikvs ''client_secret'' = Some cs"
      and "map_of ikvs ''redirect_uris'' = Some (JArr (ru # rus))"
      and "read_file W (TOKEN_PATH self) = Inr cached"
      and "json_parse L cached = Inr tok"
  shows "outcome (authorize L W self) =
           Resolved \<lparr> clientId = cid, clientSecret = cs, redirectUrl = ru, credentials = tok \<rparr>
         \<and> trace (authorize L W self) =
             [ReadFile (credentialsPath self), ReadFile (TOKEN_PATH self), Resolve]
         \<and> filter is_interactive (trace (authorize L W self)) = []
         \<and> uncaught (authorize L W self) = None"
proof -
  have mk: "make_client (JObj kvs) =
              Inr \<lparr> clientId = cid, clientSecret = cs, redirectUrl = ru, credentials = JObj [] \<rparr>"
    using assms(3-6) by (rule make_client_ok)
  show ?thesis
    by (simp add: authorize_read_ok [OF assms(1) assms(2) mk] assms(7) assms(8))
qed

theorem cached_token_resolves_witness:
  "outcome (authorize sample_platform
              (sample_world (Inr ''CREDENTIALS-JSON'') (Inr ''TOKEN-JSON'') None None
                 (Inl (Exn ''Error'' ''unreachable'' None)))
              sample_self) =
     Resolved \<lparr> clientId = JStr ''id-1'', clientSecret = JStr ''secret-1'',
                redirectUrl = JStr ''urn:ietf:wg:oauth:2.0:oob'', credentials = sample_token \<rparr>
   \<and> trace (authorize sample_platform
              (sample_world (Inr ''CREDENTIALS-JSON'') (Inr ''TOKEN-JSON'') None None
                 (Inl (Exn ''Error'' ''unreachable'' None)))
              sample_self) =
       [ReadFile ''credentials.json'', ReadFile ''/home/u/.credentials/googleapis.json'', Resolve]"
proof -
  from cached_token_resolves
         [OF sample_read_creds sample_parse_creds sample_installed_fields
             sample_read_cache sample_parse_token]
  show ?thesis by (simp add: sample_self_def)
qed

text \<open>
  C4. If the read of the credentials file fails, \<open>authorize()\<close> logs the error and
  rejects with it; the token store is not called: no directory is created and no file
  is written.
\<close>

theorem missing_credentials_reject:
  assumes "read_file W (credentialsPath self) = Inl err"
  shows "authorize L W self =
           \<lparr> trace = [ReadFile (credentialsPath self),
                      ConsoleError (''Error loading credentials.json file: '' @ exn_to_string err),
                      Reject err],
             outcome = Rejected err, uncaught = None, oauth2Client = None \<rparr>
         \<and> filter is_store (trace (authorize L W self)) = []"
  using assms by (simp add: authorize_def)

theorem missing_credentials_reject_witness:
  "read_file (sample_world (Inl (enoent ''credentials.json'')) (Inr ''TOKEN-JSON'') None None
                (Inr sample_token)) (credentialsPath sample_self) = Inl (enoent ''credentials.json'')
   \<and> authorize sample_platform
       (sample_world (Inl (enoent ''credentials.json'')) (Inr ''TOKEN-JSON'') None None
          (Inr sample_token)) sample_self =
       \<lparr> trace = [ReadFile ''credentials.json'',
                  ConsoleError ''Error loading credentials.json file: Error: ENOENT: no such file or directory, open credentials.json'',
                  Reject (enoent ''credentials.json'')],
         outcome = Rejected (enoent ''credentials.json''), uncaught = None, oauth2Client = None \<rparr>"
proof -
  have h: "read_file (sample_world (Inl (enoent ''credentials.json'')) (Inr ''TOKEN-JSON'') None None
                (Inr sample_token)) (credentialsPath sample_self) = Inl (enoent ''credentials.json'')"
    by (simp add: sample_world_def sample_self_def)
  from missing_credentials_reject [OF h, of sample_platform] h show ?thesis
    by (simp add: sample_self_def exn_to_string_def enoent_def)
qed

text \<open>
  C9. If the read of the cache file succeeds and its content is not well-formed JSON, the
  exception of \<open>JSON.parse\<close> escapes the callback of the read: the promise stays pending
  (it is neither resolved nor rejected) and the interactive path is not taken.
\<close>

theorem corrupt_cache_uncaught:
  assumes "read_file W (credentialsPath self) = Inr content"
      and "json_parse L content = Inr (JObj kvs)"
      and "map_of kvs ''installed'' = Some (JObj ikvs)"
      and "map_of ikvs ''client_id'' = Some cid"
      and "map_of ikvs ''client_secret'' = Some cs"
      and "map_of ikvs ''redirect_uris'' = Some (JArr (ru # rus))"
      and "read_file W (TOKEN_PATH self) = Inr cached"
      and "json_parse L cached = Inl e"
  shows "uncaught (authorize L W self) = Some e
         \<and> outcome (authorize L W self) = Pending
         \<and> trace (authorize L W self) =
             [ReadFile (credentialsPath self), ReadFile (TOKEN_PATH self)]
         \<and> filter is_interactive (trace (authorize L W self)) = []"
proof -
  have mk: "make_client (JObj kvs) =
              Inr \<lparr> clientId = cid, clientSecret = cs, redirectUrl = ru, credentials = JObj [] \<rparr>"
    using assms(3-6) by (rule make_client_ok)
  show ?thesis
    by (simp add: authorize_read_ok [OF assms(1) assms(2) mk] assms(7) assms(8))
qed

theorem corrupt_cache_uncaught_witness:
  "uncaught (authorize sample_platform
              (sample_world (Inr ''CREDENTIALS-JSON'') (Inr ''{not json'') None (Some ''4/code'')
                 (Inr sample_token))
              sample_self) = Some (Exn ''SyntaxError'' ''Unexpected token'' None)
   \<and> outcome (authorize sample_platform
              (sample_world (Inr ''CREDENTIALS-JSON'') (Inr ''{not json'') None (Some ''4/code'')
                 (Inr sample_token))
              sample_self) = Pending
   \<and> trace (authorize sample_platform
              (sample_world (Inr ''CREDENTIALS-JSON'') (Inr ''{not json'') None (Some ''4/code'')
                 (Inr sample_token))
              sample_self) =
       [ReadFile ''credentials.json'', ReadFile ''/home/u/.credentials/googleapis.json'']"
proof -
  have p: "json_parse sample_platform ''{not json'' = Inl (Exn ''SyntaxError'' ''Unexpected token'' None)"
    by (simp add: sample_platform_def)
  from corrupt_cache_uncaught
         [OF sample_read_creds sample_parse_creds sample_installed_fields sample_read_cache p]
  show ?thesis by (simp add: sample_self_def)
qed

section \<open>The token store\<close>

lemma write_and_log_mkdir: "write_and_log L (W\<lparr> mkdir_sync := f \<rparr>) self token = write_and_log L W self token"
  by (simp add: write_and_log_def)

lemma storeToken_swallowed:
  assumes "case mkdir_sync W (TOKEN_DIR self) of None \<Rightarrow> True
           | Some e \<Rightarrow> exn_code e = Some ''EEXIST''"
  shows "storeToken L W self token = write_and_log L W self token"
proof (cases "mkdir_sync W (TOKEN_DIR self)")
  case None
  then show ?thesis by (simp add: storeToken_def)
next
  case (Some e)
  with assms have "exn_code e = Some ''EEXIST''" by simp
  with Some show ?thesis by (simp add: storeToken_def)
qed

lemma storeToken_stored:
  assumes "case mkdir_sync W (TOKEN_DIR self) of None \<Rightarrow> True
           | Some e \<Rightarrow> exn_code e = Some ''EEXIST''"
      and "token \<noteq> JUndefined"
  shows "storeToken L W self token =
           \<lparr> thrown = None,
             events = [MkdirSync (TOKEN_DIR self),
                       WriteFile (TOKEN_PATH self) (json_stringify L token),
                       ConsoleLog [LStr (''Token stored to '' @ TOKEN_PATH self)]],
             deferred = [WriteFileDone (write_file W (TOKEN_PATH self) (json_stringify L token))],
             deferred_throw = write_file W (TOKEN_PATH self) (json_stringify L token) \<rparr>"
  using assms(2)
  by (simp add: storeToken_swallowed [OF assms(1)] write_and_log_def write_callback_def Let_def
        split: option.splits)

lemma storeToken_undefined:
  assumes "case mkdir_sync W (TOKEN_DIR self) of None \<Rightarrow> True
           | Some e \<Rightarrow> exn_code e = Some ''EEXIST''"
  shows "storeToken L W self JUndefined =
           \<lparr> thrown = Some invalid_data, events = [MkdirSync (TOKEN_DIR self)],
             deferred = [], deferred_throw = None \<rparr>"
  by (simp add: storeToken_swallowed [OF assms] write_and_log_def)

lemma sample_stringify: "json_stringify sample_platform sample_token = ''TOKEN-JSON''"
  by (simp add: sample_platform_def)

lemma sample_token_defined: "sample_token \<noteq> JUndefined"
  by (simp add: sample_token_def)

lemma sample_write: "write_file (sample_world creds cache mk line exch) p d = None"
  by (simp add: sample_world_def)

lemma sample_mkdir: "mkdir_sync (sample_world creds cache mk line exch) d = mk"
  by (simp add: sample_world_def)

lemma sample_paths:
  "TOKEN_DIR sample_self = ''/home/u/.credentials/''"
  "TOKEN_PATH sample_self = ''/home/u/.credentials/googleapis.json''"
  "credentialsPath sample_self = ''credentials.json''"
  by (simp_all add: sample_self_def)

lemma storeToken_thrown:
  assumes "mkdir_sync W (TOKEN_DIR self) = Some err" and "exn_code err \<noteq> Some ''EEXIST''"
  shows "storeToken L W self token =
           \<lparr> thrown = Some err, events = [MkdirSync (TOKEN_DIR self)],
             deferred = [], deferred_throw = None \<rparr>"
  using assms by (simp add: storeToken_def)

lemma storeToken_not_thrown:
  assumes "thrown (storeToken L W self token) = None"
  shows "(case mkdir_sync W (TOKEN_DIR self) of None \<Rightarrow> True
          | Some e \<Rightarrow> exn_code e = Some ''EEXIST'')
         \<and> token \<noteq> JUndefined"
  using assms
  by (simp add: storeToken_def write_and_log_def Let_def split: option.splits if_splits)

text \<open>
  C7. When creating the directory fails with the code \<open>EEXIST\<close>, \<open>storeToken\<close> swallows
  the error and goes on exactly as if the directory had been created: the error is not
  thrown, and for a token that is not \<open>undefined\<close> the call throws nothing, issues the
  write and logs. When creating the directory fails with any other code, or with none,
  the error is thrown to the caller and nothing is written.
\<close>

theorem mkdir_error_handling:
  assumes "mkdir_sync W (TOKEN_DIR self) = Some err"
  shows "(exn_code err = Some ''EEXIST'' \<longrightarrow>
            storeToken L W self token =
              storeToken L (W\<lparr> mkdir_sync := (\<lambda>d. None) \<rparr>) self token
            \<and> thrown (storeToken L W self token) \<noteq> Some err
            \<and> (token \<noteq> JUndefined \<longrightarrow>
                 thrown (storeToken L W self token) = None
                 \<and> events (storeToken L W self token) =
                     [MkdirSync (TOKEN_DIR self),
                      WriteFile (TOKEN_PATH self) (json_stringify L token),
                      ConsoleLog [LStr (''Token stored to '' @ TOKEN_PATH self)]]))
         \<and> (exn_code err \<noteq> Some ''EEXIST'' \<longrightarrow>
            thrown (storeToken L W self token) = Some err
            \<and> events (storeToken L W self token) = [MkdirSync (TOKEN_DIR self)]
            \<and> deferred (storeToken L W self token) = [])"
proof (intro conjI impI)
  assume c: "exn_code err = Some ''EEXIST''"
  have ok: "case mkdir_sync W (TOKEN_DIR self) of None \<Rightarrow> True
            | Some e \<Rightarrow> exn_code e = Some ''EEXIST''"
    using assms c by simp
  have ok': "case mkdir_sync (W\<lparr> mkdir_sync := (\<lambda>d. None) \<rparr>) (TOKEN_DIR self) of None \<Rightarrow> True
             | Some e \<Rightarrow> exn_code e = Some ''EEXIST''"
    by simp
  show "storeToken L W self token = storeToken L (W\<lparr> mkdir_sync := (\<lambda>d. None) \<rparr>) self token"
    by (simp add: storeToken_swallowed [OF ok] storeToken_swallowed [OF ok'] write_and_log_mkdir)
  show "thrown (storeToken L W self token) \<noteq> Some err"
  proof (cases "token = JUndefined")
    case True
    have "exn_code invalid_data \<noteq> exn_code err"
      using c by (simp add: invalid_data_def)
    then have "invalid_data \<noteq> err" by auto
    with True show ?thesis
      by (simp add: storeToken_undefined [OF ok])
  next
    case False
    then show ?thesis by (simp add: storeToken_stored [OF ok False])
  qed
  {
    assume d: "token \<noteq> JUndefined"
    show "thrown (storeToken L W self token) = None"
      by (simp add: storeToken_stored [OF ok d])
    show "events (storeToken L W self token) =
            [MkdirSync (TOKEN_DIR self),
             WriteFile (TOKEN_PATH self) (json_stringify L token),
             ConsoleLog [LStr (''Token stored to '' @ TOKEN_PATH self)]]"
      by (simp add: storeToken_stored [OF ok d])
  }
next
  assume c: "exn_code err \<noteq> Some ''EEXIST''"
  show "thrown (storeToken L W self token) = Some err"
    by (simp add: storeToken_thrown [OF assms c])
  show "events (storeToken L W self token) = [MkdirSync (TOKEN_DIR self)]"
    by (simp add: storeToken_thrown [OF assms c])
  show "deferred (storeToken L W self token) = []"
    by (simp add: storeToken_thrown [OF assms c])
qed

theorem mkdir_error_handling_witness:
  "storeToken sample_platform
     (sample_world (Inr ''CREDENTIALS-JSON'') (Inl (enoent ''x''))
        (Some (eexist ''/home/u/.credentials/'')) None (Inr sample_token))
     sample_self sample_token =
   storeToken sample_platform
     ((sample_world (Inr ''CREDENTIALS-JSON'') (Inl (enoent ''x''))
        (Some (eexist ''/home/u/.credentials/'')) None (Inr sample_token))
        \<lparr> mkdir_sync := (\<lambda>d. None) \<rparr>)
     sample_self sample_token
   \<and> thrown (storeToken sample_platform
             (sample_world (Inr ''CREDENTIALS-JSON'') (Inl (enoent ''x''))
                (Some (eexist ''/home/u/.credentials/'')) None (Inr sample_token))
             sample_self sample_token) = None
   \<and> events (storeToken sample_platform
             (sample_world (Inr ''CREDENTIALS-JSON'') (Inl (enoent ''x''))
                (Some (eexist ''/home/u/.credentials/'')) None (Inr sample_token))
             sample_self sample_token) =
       [MkdirSync ''/home/u/.credentials/'',
        WriteFile ''/home/u/.credentials/googleapis.json'' ''TOKEN-JSON'',
        ConsoleLog [LStr ''Token stored to /home/u/.credentials/googleapis.json'']]
   \<and> thrown (storeToken sample_platform
             (sample_world (Inr ''CREDENTIALS-JSON'') (Inl (enoent ''x''))
                (Some (eacces ''/home/u/.credentials/'')) None (Inr sample_token))
             sample_self sample_token) = Some (eacces ''/home/u/.credentials/'')
   \<and> events (storeToken sample_platform
             (sample_world (Inr ''CREDENTIALS-JSON'') (Inl (enoent ''x''))
                (Some (eacces ''/home/u/.credentials/'')) None (Inr sample_token))
             sample_self sample_token) = [MkdirSync ''/home/u/.credentials/'']"
proof -
  let ?W1 = "sample_world (Inr ''CREDENTIALS-JSON'') (Inl (enoent ''x''))
                (Some (eexist ''/home/u/.credentials/'')) None (Inr sample_token)"
  let ?W2 = "sample_world (Inr ''CREDENTIALS-JSON'') (Inl (enoent ''x''))
                (Some (eacces ''/home/u/.credentials/'')) None (Inr sample_token)"
  let ?S1 = "storeToken sample_platform ?W1 sample_self sample_token"
  let ?S2 = "storeToken sample_platform ?W2 sample_self sample_token"
  let ?stored = "[MkdirSync (TOKEN_DIR sample_self),
                  WriteFile (TOKEN_PATH sample_self) (json_stringify sample_platform sample_token),
                  ConsoleLog [LStr (''Token stored to '' @ TOKEN_PATH sample_self)]]"
  have c1: "exn_code (eexist ''/home/u/.credentials/'') = Some ''EEXIST''"
    by (simp add: eexist_def)
  have c2: "exn_code (eacces ''/home/u/.credentials/'') \<noteq> Some ''EEXIST''"
    by (simp add: eacces_def)
  note t1 = mkdir_error_handling
              [where W = "?W1" and self = sample_self and L = sample_platform
                 and token = sample_token, OF sample_mkdir]
  note t2 = mkdir_error_handling
              [where W = "?W2" and self = sample_self and L = sample_platform
                 and token = sample_token, OF sample_mkdir]
  from t1 [THEN conjunct1, THEN mp, OF c1]
  have same: "?S1 = storeToken sample_platform (?W1\<lparr> mkdir_sync := (\<lambda>d. None) \<rparr>)
                      sample_self sample_token"
    and rest: "thrown ?S1 \<noteq> Some (eexist ''/home/u/.credentials/'')
               \<and> (sample_token \<noteq> JUndefined \<longrightarrow> thrown ?S1 = None \<and> events ?S1 = ?stored)"
    by (rule conjunct1, rule conjunct2)
  from rest [THEN conjunct2, THEN mp, OF sample_token_defined]
  have th1: "thrown ?S1 = None" and ev1: "events ?S1 = ?stored"
    by (rule conjunct1, rule conjunct2)
  from t2 [THEN conjunct2, THEN mp, OF c2]
  have th2: "thrown ?S2 = Some (eacces ''/home/u/.credentials/'')"
    and ev2: "events ?S2 = [MkdirSync (TOKEN_DIR sample_self)]"
    by (rule conjunct1, rule conjunct2 [THEN conjunct1])
  have ev1': "events ?S1 =
               [MkdirSync ''/home/u/.credentials/'',
                WriteFile ''/home/u/.credentials/googleapis.json'' ''TOKEN-JSON'',
                ConsoleLog [LStr ''Token stored to /home/u/.credentials/googleapis.json'']]"
    unfolding ev1 by (simp add: sample_stringify sample_paths)
  have ev2': "events ?S2 = [MkdirSync ''/home/u/.credentials/'']"
    unfolding ev2 by (simp add: sample_paths)
  from same th1 ev1' th2 ev2' show ?thesis
    by (intro conjI)
qed

text \<open>
  C8, as stated, fails: in a call of \<open>storeToken\<close> that succeeds, the completion of the
  write does not come before the log of the destination path.
\<close>

theorem log_not_after_write_completion:
  "thrown (storeToken sample_platform
             (sample_world (Inr ''CREDENTIALS-JSON'') (Inl (enoent ''x'')) None None
                (Inr sample_token))
             sample_self sample_token) = None
   \<and> store_trace (storeToken sample_platform
             (sample_world (Inr ''CREDENTIALS-JSON'') (Inl (enoent ''x'')) None None
                (Inr sample_token))
             sample_self sample_token) =
       [MkdirSync ''/home/u/.credentials/'',
        WriteFile ''/home/u/.credentials/googleapis.json'' ''TOKEN-JSON'',
        ConsoleLog [LStr ''Token stored to /home/u/.credentials/googleapis.json''],
        WriteFileDone None]
   \<and> \<not> happens_before (WriteFileDone None)
         (ConsoleLog [LStr ''Token stored to /home/u/.credentials/googleapis.json''])
         (store_trace (storeToken sample_platform
             (sample_world (Inr ''CREDENTIALS-JSON'') (Inl (enoent ''x'')) None None
                (Inr sample_token))
             sample_self sample_token))"
proof -
  let ?W = "sample_world (Inr ''CREDENTIALS-JSON'') (Inl (enoent ''x'')) None None
              (Inr sample_token)"
  have ok: "case mkdir_sync ?W (TOKEN_DIR sample_self) of None \<Rightarrow> True
            | Some e \<Rightarrow> exn_code e = Some ''EEXIST''"
    by (simp add: sample_mkdir)
  show ?thesis
    by (simp add: storeToken_stored [OF ok sample_token_defined] store_trace_def
          happens_before_def sample_stringify sample_write sample_paths)
qed

text \<open>
  C8, amended. In every call of \<open>storeToken\<close> that does not throw, the destination path
  is logged right after the write has been issued, before the call returns, and the
  write completes only afterwards: the log comes before the completion of the write,
  whether the write succeeds or not.
\<close>

theorem log_precedes_write_completion:
  assumes "thrown (storeToken L W self token) = None"
  shows "store_trace (storeToken L W self token) =
           [MkdirSync (TOKEN_DIR self),
            WriteFile (TOKEN_PATH self) (json_stringify L token),
            ConsoleLog [LStr (''Token stored to '' @ TOKEN_PATH self)],
            WriteFileDone (write_file W (TOKEN_PATH self) (json_stringify L token))]
         \<and> events (storeToken L W self token) =
           [MkdirSync (TOKEN_DIR self),
            WriteFile (TOKEN_PATH self) (json_stringify L token),
            ConsoleLog [LStr (''Token stored to '' @ TOKEN_PATH self)]]
         \<and> happens_before (WriteFile (TOKEN_PATH self) (json_stringify L token))
             (ConsoleLog [LStr (''Token stored to '' @ TOKEN_PATH self)])
             (store_trace (storeToken L W self token))
         \<and> happens_before (ConsoleLog [LStr (''Token stored to '' @ TOKEN_PATH self)])
             (WriteFileDone (write_file W (TOKEN_PATH self) (json_stringify L token)))
             (store_trace (storeToken L W self token))"
proof -
  from storeToken_not_thrown [OF assms]
  have ok: "case mkdir_sync W (TOKEN_DIR self) of None \<Rightarrow> True
            | Some e \<Rightarrow> exn_code e = Some ''EEXIST''"
    and d: "token \<noteq> JUndefined"
    by simp_all
  show ?thesis
    by (simp add: storeToken_stored [OF ok d] store_trace_def happens_before_def)
qed

theorem log_precedes_write_completion_witness:
  "thrown (storeToken sample_platform
             (sample_world (Inr ''CREDENTIALS-JSON'') (Inl (enoent ''x''))
                (Some (eexist ''/home/u/.credentials/'')) None (Inr sample_token))
             sample_self sample_token) = None
   \<and> happens_before (ConsoleLog [LStr ''Token stored to /home/u/.credentials/googleapis.json''])
       (WriteFileDone None)
       (store_trace (storeToken sample_platform
             (sample_world (Inr ''CREDENTIALS-JSON'') (Inl (enoent ''x''))
                (Some (eexist ''/home/u/.credentials/'')) None (Inr sample_token))
             sample_self sample_token))"
proof -
  let ?W = "sample_world (Inr ''CREDENTIALS-JSON'') (Inl (enoent ''x''))
                (Some (eexist ''/home/u/.credentials/'')) None (Inr sample_token)"
  have ok: "case mkdir_sync ?W (TOKEN_DIR sample_self) of None \<Rightarrow> True
            | Some e \<Rightarrow> exn_code e = Some ''EEXIST''"
    by (simp add: sample_mkdir eexist_def)
  have t: "thrown (storeToken sample_platform ?W sample_self sample_token) = None"
    by (simp add: storeToken_stored [OF ok sample_token_defined])
  have "happens_before (ConsoleLog [LStr (''Token stored to '' @ TOKEN_PATH sample_self)])
          (WriteFileDone (write_file ?W (TOKEN_PATH sample_self)
                            (json_stringify sample_platform sample_token)))
          (store_trace (storeToken sample_platform ?W sample_self sample_token))"
    using log_precedes_write_completion [OF t] by blast
  with t show ?thesis
    by (simp add: sample_stringify sample_write sample_paths)
qed

section \<open>The interactive path\<close>

text \<open>What \<open>authorize\<close> does when the client is built and the read of the cache file fails.\<close>

lemma authorize_interactive:
  assumes "read_file W (credentialsPath self) = Inr content"
      and "json_parse L content = Inr (JObj kvs)"
      and "map_of kvs ''installed'' = Some (JObj ikvs)"
      and "map_of ikvs ''client_id'' = Some cid"
      and "map_of ikvs ''client_secret'' = Some cs"
      and "map_of ikvs ''redirect_uris'' = Some (JArr (ru # rus))"
      and "read_file W (TOKEN_PATH self) = Inl rerr"
  shows "authorize L W self =
           (let r = getNewToken L W self
                      \<lparr> clientId = cid, clientSecret = cs, redirectUrl = ru, credentials = JObj [] \<rparr>
            in r\<lparr> trace := ReadFile (credentialsPath self) # ReadFile (TOKEN_PATH self) # trace r \<rparr>)"
proof -
  have mk: "make_client (JObj kvs) =
              Inr \<lparr> clientId = cid, clientSecret = cs, redirectUrl = ru, credentials = JObj [] \<rparr>"
    using assms(3-6) by (rule make_client_ok)
  show ?thesis
    by (simp add: authorize_read_ok [OF assms(1) assms(2) mk] assms(7))
qed

lemma getNewToken_starts:
  "take 2 (trace (getNewToken L W self cl)) =
     [ConsoleLog [LStr ''Authorize this app by visiting this url: '',
                  LStr (generateAuthUrl L cl ''offline'' (SCOPES self))],
      Question ''Enter the code from that page here: '']"
  by (simp add: getNewToken_def Let_def split: option.splits sum.splits)

lemma getNewToken_waits:
  assumes "stdin_line W = None"
  shows "getNewToken L W self cl =
           \<lparr> trace =
               [ConsoleLog [LStr ''Authorize this app by visiting this url: '',
                            LStr (generateAuthUrl L cl ''offline'' (SCOPES self))],
                Question ''Enter the code from that page here: ''],
             outcome = Pending, uncaught = None, oauth2Client = Some cl \<rparr>"
  by (simp add: getNewToken_def Let_def assms)

lemma storeToken_no_exchange:
  "filter is_exchange (events (storeToken L W self token)) = []
   \<and> filter is_exchange (deferred (storeToken L W self token)) = []"
  by (simp add: storeToken_def write_and_log_def write_callback_def Let_def split: option.splits)

lemma getNewToken_one_exchange:
  assumes "stdin_line W = Some code"
  shows "filter is_exchange (trace (getNewToken L W self cl)) = [GetToken code]"
  using storeToken_no_exchange [of L W self]
  by (simp add: getNewToken_def Let_def assms split: option.splits sum.splits)

lemma getNewToken_stored:
  assumes "stdin_line W = Some code"
      and "get_token W cl code = Inr token"
      and "case mkdir_sync W (TOKEN_DIR self) of None \<Rightarrow> True
           | Some e \<Rightarrow> exn_code e = Some ''EEXIST''"
      and "token \<noteq> JUndefined"
  shows "getNewToken L W self cl =
           \<lparr> trace =
               [ConsoleLog [LStr ''Authorize this app by visiting this url: '',
                            LStr (generateAuthUrl L cl ''offline'' (SCOPES self))],
                Question ''Enter the code from that page here: '',
                RlClose,
                GetToken code,
                MkdirSync (TOKEN_DIR self),
                WriteFile (TOKEN_PATH self) (json_stringify L token),
                ConsoleLog [LStr (''Token stored to '' @ TOKEN_PATH self)],
                Resolve,
                WriteFileDone (write_file W (TOKEN_PATH self) (json_stringify L token))],
             outcome = Resolved (cl\<lparr> credentials := token \<rparr>),
             uncaught = write_file W (TOKEN_PATH self) (json_stringify L token),
             oauth2Client = Some (cl\<lparr> credentials := token \<rparr>) \<rparr>"
  by (simp add: getNewToken_def Let_def assms(1) assms(2) storeToken_stored [OF assms(3) assms(4)])

lemma getNewToken_store_throws:
  assumes "stdin_line W = Some code"
      and "get_token W cl code = Inr token"
      and "storeToken L W self token =
             \<lparr> thrown = Some err, events = [MkdirSync (TOKEN_DIR self)],
               deferred = [], deferred_throw = None \<rparr>"
  shows "getNewToken L W self cl =
           \<lparr> trace =
               [ConsoleLog [LStr ''Authorize this app by visiting this url: '',
                            LStr (generateAuthUrl L cl ''offline'' (SCOPES self))],
                Question ''Enter the code from that page here: '',
                RlClose,
                GetToken code,
                MkdirSync (TOKEN_DIR self)],
             outcome = Pending,
             uncaught = Some err,
             oauth2Client = Some (cl\<lparr> credentials := token \<rparr>) \<rparr>"
  by (simp add: getNewToken_def Let_def assms)

lemma getNewToken_exchange_fails:
  assumes "stdin_line W = Some code"
      and "get_token W cl code = Inl err"
  shows "getNewToken L W self cl =
           \<lparr> trace =
               [ConsoleLog [LStr ''Authorize this app by visiting this url: '',
                            LStr (generateAuthUrl L cl ''offline'' (SCOPES self))],
                Question ''Enter the code from that page here: '',
                RlClose,
                GetToken code,
                ConsoleLog [LStr ''Error while trying to retrieve access token'', LErr err],
                Reject err],
             outcome = Rejected err,
             uncaught = None,
             oauth2Client = Some cl \<rparr>"
  by (simp add: getNewToken_def Let_def assms)

lemma sample_line: "stdin_line (sample_world creds cache mk line exch) = line"
  by (simp add: sample_world_def)

lemma sample_exchange: "get_token (sample_world creds cache mk line exch) cl code = exch"
  by (simp add: sample_world_def)

subsection \<open>The sample platform honours the contract of the URL\<close>

lemma hex_cases:
  "k < 16 \<Longrightarrow> k = 0 \<or> k = 1 \<or> k = 2 \<or> k = 3 \<or> k = 4 \<or> k = 5 \<or> k = 6 \<or> k = 7 \<or> k = 8
     \<or> k = 9 \<or> k = 10 \<or> k = 11 \<or> k = 12 \<or> k = 13 \<or> k = 14 \<or> k = (15::nat)"
  by arith

lemma hex_value_digit: "k < 16 \<Longrightarrow> hex_value (hex_digit k) = Some k"
  by (drule hex_cases) (auto simp: hex_value_def hex_digit_def)

lemma hex_digit_plain: "k < 16 \<Longrightarrow> CHR ''&'' \<noteq> hex_digit k"
  by (drule hex_cases) (auto simp: hex_digit_def)

lemma unreserved_plain: "unreserved c \<Longrightarrow> c \<noteq> CHR ''&'' \<and> c \<noteq> CHR ''%''"
  by (auto simp: unreserved_def)

lemma decode_plain: "c \<noteq> CHR ''%'' \<Longrightarrow> percent_decode (c # xs) = c # percent_decode xs"
proof (cases xs)
  case Nil
  then show ?thesis by simp
next
  case (Cons a ys)
  assume c: "c \<noteq> CHR ''%''"
  show ?thesis
  proof (cases ys)
    case Nil
    with Cons show ?thesis by simp
  next
    case (Cons b rest)
    with \<open>xs = a # ys\<close> c show ?thesis by simp
  qed
qed

lemma char_code_split: "char_of (16 * (of_char c div 16) + of_char c mod 16 :: nat) = c"
  by simp

lemma char_code_bound: "(of_char c :: nat) div 16 < 16" "(of_char c :: nat) mod 16 < 16"
proof -
  have "(of_char c :: nat) < 16 * 16" by simp
  then show "(of_char c :: nat) div 16 < 16" by (rule less_mult_imp_div_less)
  show "(of_char c :: nat) mod 16 < 16" by simp
qed

lemma decode_encode_char:
  "percent_decode (percent_encode_char c @ xs) = c # percent_decode xs"
proof (cases "unreserved c")
  case True
  then show ?thesis
    by (simp add: percent_encode_char_def decode_plain unreserved_plain)
next
  case False
  then show ?thesis
    by (simp add: percent_encode_char_def hex_value_digit char_code_bound)
qed

lemma decode_encode: "percent_decode (percent_encode s) = s"
  by (induction s) (simp_all add: percent_encode_def decode_encode_char)

lemma encode_char_plain: "CHR ''&'' \<notin> set (percent_encode_char c)"
  using unreserved_plain [of c]
  by (auto simp: percent_encode_char_def hex_digit_plain char_code_bound)

lemma encode_plain: "CHR ''&'' \<notin> set (percent_encode s)"
  by (induction s) (simp_all add: percent_encode_def encode_char_plain)

lemma split_on_plain: "c \<notin> set u \<Longrightarrow> split_on c u = [u]"
  by (induction u) auto

lemma split_on_first: "c \<notin> set u \<Longrightarrow> split_on c (u @ c # v) = u # split_on c v"
  by (induction u) auto

lemma is_prefix_append: "is_prefix s (s @ t)"
  by (induction s) simp_all

lemma occurs_in_prefix: "occurs_in s (s @ t)"
  using is_prefix_append [of s t] by (cases "s @ t") auto

lemma occurs_in_append: "occurs_in s t \<Longrightarrow> occurs_in s (u @ t)"
  by (induction u) simp_all

lemma occurs_in_join: "s \<in> set sc \<Longrightarrow> occurs_in s (join_space sc)"
proof (induction sc rule: join_space.induct)
  case 1
  then show ?case by simp
next
  case (2 x)
  then show ?case using occurs_in_prefix [of s "[]"] by simp
next
  case (3 x t ss)
  show ?case
  proof (cases "s = x")
    case True
    then show ?thesis using occurs_in_prefix [of x "'' '' @ join_space (t # ss)"] by simp
  next
    case False
    with 3 have "occurs_in s (join_space (t # ss))" by simp
    then have "occurs_in s (x @ '' '' @ join_space (t # ss))"
      using occurs_in_append [of s "join_space (t # ss)" "x @ '' ''"] by simp
    then show ?thesis by simp
  qed
qed

lemma sample_scope_param:
  "scope_param (sample_generateAuthUrl cl access sc) = Some (join_space sc)"
proof -
  have q: "query_of (sample_generateAuthUrl cl access sc) =
             (''access_type='' @ percent_encode access) @ CHR ''&'' # (''scope='' @ percent_encode (join_space sc))"
    by (simp add: query_of_def sample_generateAuthUrl_def)
  have a: "CHR ''&'' \<notin> set (''access_type='' @ percent_encode access)"
    by (simp add: encode_plain)
  have b: "CHR ''&'' \<notin> set (''scope='' @ percent_encode (join_space sc))"
    by (simp add: encode_plain)
  have s: "split_on CHR ''&'' (query_of (sample_generateAuthUrl cl access sc)) =
             [''access_type='' @ percent_encode access, ''scope='' @ percent_encode (join_space sc)]"
    unfolding q by (simp only: split_on_first [OF a] split_on_plain [OF b])
  show ?thesis
    unfolding scope_param_def s by (simp add: key_value_def decode_encode)
qed

lemma sample_contract:
  "s \<in> set sc \<Longrightarrow> url_has_scope (sample_generateAuthUrl cl access sc) s"
  by (simp add: url_has_scope_def sample_scope_param occurs_in_join)

lemma sample_platform_contract:
  "s \<in> set sc \<Longrightarrow> url_has_scope (generateAuthUrl sample_platform cl access sc) s"
  by (simp add: sample_platform_def sample_contract)

lemma sample_url:
  "generateAuthUrl sample_platform cl ''offline'' (SCOPES sample_self) =
     ''https://accounts.google.com/o/oauth2/auth?access_type=offline&scope=https%3A%2F%2Fwww.googleapis.com%2Fauth%2Fspreadsheets%20https%3A%2F%2Fwww.googleapis.com%2Fauth%2Fdrive''"
  by (simp add: sample_platform_def sample_self_def sample_generateAuthUrl_def percent_encode_def
        percent_encode_char_def unreserved_def hex_digit_def)

subsection \<open>The flow\<close>

text \<open>
  C5, as stated, fails: the credentials file is readable, the read of the cache file
  fails, a line is typed and the token exchange succeeds, yet nothing is written to the
  cache path. In the first run creating the directory fails with \<open>EACCES\<close> and
  \<open>storeToken\<close> throws that error; in the second the exchange answers \<open>undefined\<close>
  for the token and \<open>fs.writeFile\<close> refuses it.
\<close>

theorem exchange_success_without_write:
  "get_token (sample_world (Inr ''CREDENTIALS-JSON'')
                (Inl (enoent ''/home/u/.credentials/googleapis.json''))
                (Some (eacces ''/home/u/.credentials/'')) (Some ''4/code'') (Inr sample_token))
     \<lparr> clientId = JStr ''id-1'', clientSecret = JStr ''secret-1'',
       redirectUrl = JStr ''urn:ietf:wg:oauth:2.0:oob'', credentials = JObj [] \<rparr>
     ''4/code'' = Inr sample_token
   \<and> trace (authorize sample_platform
       (sample_world (Inr ''CREDENTIALS-JSON'')
          (Inl (enoent ''/home/u/.credentials/googleapis.json''))
          (Some (eacces ''/home/u/.credentials/'')) (Some ''4/code'') (Inr sample_token))
       sample_self) =
       [ReadFile ''credentials.json'',
        ReadFile ''/home/u/.credentials/googleapis.json'',
        ConsoleLog [LStr ''Authorize this app by visiting this url: '',
                    LStr ''https://accounts.google.com/o/oauth2/auth?access_type=offline&scope=https%3A%2F%2Fwww.googleapis.com%2Fauth%2Fspreadsheets%20https%3A%2F%2Fwww.googleapis.com%2Fauth%2Fdrive''],
        Question ''Enter the code from that page here: '',
        RlClose,
        GetToken ''4/code'',
        MkdirSync ''/home/u/.credentials/'']
   \<and> filter is_write (trace (authorize sample_platform
       (sample_world (Inr ''CREDENTIALS-JSON'')
          (Inl (enoent ''/home/u/.credentials/googleapis.json''))
          (Some (eacces ''/home/u/.credentials/'')) (Some ''4/code'') (Inr sample_token))
       sample_self)) = []
   \<and> outcome (authorize sample_platform
       (sample_world (Inr ''CREDENTIALS-JSON'')
          (Inl (enoent ''/home/u/.credentials/googleapis.json''))
          (Some (eacces ''/home/u/.credentials/'')) (Some ''4/code'') (Inr sample_token))
       sample_self) = Pending
   \<and> uncaught (authorize sample_platform
       (sample_world (Inr ''CREDENTIALS-JSON'')
          (Inl (enoent ''/home/u/.credentials/googleapis.json''))
          (Some (eacces ''/home/u/.credentials/'')) (Some ''4/code'') (Inr sample_token))
       sample_self) = Some (eacces ''/home/u/.credentials/'')
   \<and> filter is_write (trace (authorize sample_platform
       (sample_world (Inr ''CREDENTIALS-JSON'')
          (Inl (enoent ''/home/u/.credentials/googleapis.json''))
          None (Some ''4/code'') (Inr JUndefined))
       sample_self)) = []
   \<and> uncaught (authorize sample_platform
       (sample_world (Inr ''CREDENTIALS-JSON'')
          (Inl (enoent ''/home/u/.credentials/googleapis.json''))
          None (Some ''4/code'') (Inr JUndefined))
       sample_self) = Some invalid_data"
proof -
  let ?W = "sample_world (Inr ''CREDENTIALS-JSON'')
              (Inl (enoent ''/home/u/.credentials/googleapis.json''))
              (Some (eacces ''/home/u/.credentials/'')) (Some ''4/code'') (Inr sample_token)"
  let ?U = "sample_world (Inr ''CREDENTIALS-JSON'')
              (Inl (enoent ''/home/u/.credentials/googleapis.json''))
              None (Some ''4/code'') (Inr JUndefined)"
  let ?cl = "\<lparr> clientId = JStr ''id-1'', clientSecret = JStr ''secret-1'',
               redirectUrl = JStr ''urn:ietf:wg:oauth:2.0:oob'', credentials = JObj [] \<rparr>"
  have c: "exn_code (eacces ''/home/u/.credentials/'') \<noteq> Some ''EEXIST''"
    by (simp add: eacces_def)
  have g: "getNewToken sample_platform ?W sample_self ?cl =
             \<lparr> trace =
                 [ConsoleLog [LStr ''Authorize this app by visiting this url: '',
                              LStr (generateAuthUrl sample_platform ?cl ''offline'' (SCOPES sample_self))],
                  Question ''Enter the code from that page here: '',
                  RlClose,
                  GetToken ''4/code'',
                  MkdirSync (TOKEN_DIR sample_self)],
               outcome = Pending,
               uncaught = Some (eacces ''/home/u/.credentials/''),
               oauth2Client = Some (?cl\<lparr> credentials := sample_token \<rparr>) \<rparr>"
    by (rule getNewToken_store_throws
              [OF sample_line sample_exchange storeToken_thrown [OF sample_mkdir c]])
  have a: "authorize sample_platform ?W sample_self =
             (let r = getNewToken sample_platform ?W sample_self ?cl
              in r\<lparr> trace := ReadFile (credentialsPath sample_self)
                                # ReadFile (TOKEN_PATH sample_self) # trace r \<rparr>)"
    by (rule authorize_interactive
              [OF sample_read_creds sample_parse_creds sample_installed_fields sample_read_cache])
  have ok: "case mkdir_sync ?U (TOKEN_DIR sample_self) of None \<Rightarrow> True
            | Some e \<Rightarrow> exn_code e = Some ''EEXIST''"
    by (simp add: sample_mkdir)
  have h: "getNewToken sample_platform ?U sample_self ?cl =
             \<lparr> trace =
                 [ConsoleLog [LStr ''Authorize this app by visiting this url: '',
                              LStr (generateAuthUrl sample_platform ?cl ''offline'' (SCOPES sample_self))],
                  Question ''Enter the code from that page here: '',
                  RlClose,
                  GetToken ''4/code'',
                  MkdirSync (TOKEN_DIR sample_self)],
               outcome = Pending,
               uncaught = Some invalid_data,
               oauth2Client = Some (?cl\<lparr> credentials := JUndefined \<rparr>) \<rparr>"
    by (rule getNewToken_store_throws
              [OF sample_line sample_exchange storeToken_undefined [OF ok]])
  have b: "authorize sample_platform ?U sample_self =
             (let r = getNewToken sample_platform ?U sample_self ?cl
              in r\<lparr> trace := ReadFile (credentialsPath sample_self)
                                # ReadFile (TOKEN_PATH sample_self) # trace r \<rparr>)"
    by (rule authorize_interactive
              [OF sample_read_creds sample_parse_creds sample_installed_fields sample_read_cache])
  show ?thesis
    by (simp add: a g b h Let_def sample_exchange sample_url sample_paths)
qed

text \<open>
  C5, amended. When the credentials file is readable and the read of the cache file
  fails, \<open>authorize()\<close> prints an authorization URL whose scope parameter contains every
  requested (prefixed) scope, asks for one line at the console and waits for it, makes
  exactly one token exchange with that line and, when the exchange succeeds with a token
  that is not \<open>undefined\<close> and creating the cache directory succeeds or fails with
  \<open>EEXIST\<close>, writes exactly \<open>JSON.stringify(token)\<close> of the returned token to the cache
  path and resolves with the client that carries the token. The URL is built by the
  library's \<open>generateAuthUrl\<close>, which is not part of the program: it is taken to put
  every scope it is given into the scope parameter of the URL it returns.
\<close>

theorem interactive_flow_stores_token:
  assumes "read_file W (credentialsPath self) = Inr content"
      and "json_parse L content = Inr (JObj kvs)"
      and "map_of kvs ''installed'' = Some (JObj ikvs)"
      and "map_of ikvs ''client_id'' = Some cid"
      and "map_of ikvs ''client_secret'' = Some cs"
      and "map_of ikvs ''redirect_uris'' = Some (JArr (ru # rus))"
      and "read_file W (TOKEN_PATH self) = Inl rerr"
      and "\<forall>c access sc. list_all (url_has_scope (generateAuthUrl L c access sc)) sc"
  shows "take 4 (trace (authorize L W self)) =
           [ReadFile (credentialsPath self),
            ReadFile (TOKEN_PATH self),
            ConsoleLog [LStr ''Authorize this app by visiting this url: '',
                        LStr (generateAuthUrl L
                                \<lparr> clientId = cid, clientSecret = cs, redirectUrl = ru,
                                  credentials = JObj [] \<rparr>
                                ''offline'' (SCOPES self))],
            Question ''Enter the code from that page here: '']
         \<and> list_all
             (url_has_scope
                (generateAuthUrl L
                   \<lparr> clientId = cid, clientSecret = cs, redirectUrl = ru, credentials = JObj [] \<rparr>
                   ''offline'' (SCOPES self)))
             (SCOPES self)
         \<and> (stdin_line W = None \<longrightarrow>
              length (trace (authorize L W self)) = 4
              \<and> outcome (authorize L W self) = Pending)
         \<and> (\<forall>code. stdin_line W = Some code \<longrightarrow>
              filter is_exchange (trace (authorize L W self)) = [GetToken code])
         \<and> (\<forall>code token.
              stdin_line W = Some code \<longrightarrow>
              get_token W \<lparr> clientId = cid, clientSecret = cs, redirectUrl = ru,
                            credentials = JObj [] \<rparr> code = Inr token \<longrightarrow>
              token \<noteq> JUndefined \<longrightarrow>
              (case mkdir_sync W (TOKEN_DIR self) of None \<Rightarrow> True
               | Some e \<Rightarrow> exn_code e = Some ''EEXIST'') \<longrightarrow>
              trace (authorize L W self) =
                [ReadFile (credentialsPath self),
                 ReadFile (TOKEN_PATH self),
                 ConsoleLog [LStr ''Authorize this app by visiting this url: '',
                             LStr (generateAuthUrl L
                                     \<lparr> clientId = cid, clientSecret = cs, redirectUrl = ru,
                                       credentials = JObj [] \<rparr>
                                     ''offline'' (SCOPES self))],
                 Question ''Enter the code from that page here: '',
                 RlClose,
                 GetToken code,
                 MkdirSync (TOKEN_DIR self),
                 WriteFile (TOKEN_PATH self) (json_stringify L token),
                 ConsoleLog [LStr (''Token stored to '' @ TOKEN_PATH self)],
                 Resolve,
                 WriteFileDone (write_file W (TOKEN_PATH self) (json_stringify L token))]
              \<and> filter is_write (trace (authorize L W self)) =
                  [WriteFile (TOKEN_PATH self) (json_stringify L token)]
              \<and> outcome (authorize L W self) =
                  Resolved \<lparr> clientId = cid, clientSecret = cs, redirectUrl = ru,
                             credentials = token \<rparr>)"
proof -
  let ?cl = "\<lparr> clientId = cid, clientSecret = cs, redirectUrl = ru, credentials = JObj [] \<rparr>"
  let ?g = "getNewToken L W self ?cl"
  have a: "authorize L W self =
             (let r = ?g
              in r\<lparr> trace := ReadFile (credentialsPath self) # ReadFile (TOKEN_PATH self) # trace r \<rparr>)"
    by (rule authorize_interactive [OF assms(1-7)])
  have tr: "trace (authorize L W self) =
              ReadFile (credentialsPath self) # ReadFile (TOKEN_PATH self) # trace ?g"
    and oc: "outcome (authorize L W self) = outcome ?g"
    by (simp_all add: a Let_def)
  have p1: "take 4 (trace (authorize L W self)) =
              [ReadFile (credentialsPath self),
               ReadFile (TOKEN_PATH self),
               ConsoleLog [LStr ''Authorize this app by visiting this url: '',
                           LStr (generateAuthUrl L ?cl ''offline'' (SCOPES self))],
               Question ''Enter the code from that page here: '']"
    using getNewToken_starts [of L W self ?cl] by (simp add: tr)
  have p2: "list_all (url_has_scope (generateAuthUrl L ?cl ''offline'' (SCOPES self))) (SCOPES self)"
    using assms(8) by blast
  have p3: "stdin_line W = None \<longrightarrow>
              length (trace (authorize L W self)) = 4 \<and> outcome (authorize L W self) = Pending"
    by (simp add: tr oc getNewToken_waits)
  have p4: "\<forall>code. stdin_line W = Some code \<longrightarrow>
              filter is_exchange (trace (authorize L W self)) = [GetToken code]"
    by (simp add: tr getNewToken_one_exchange)
  have p5: "\<forall>code token.
              stdin_line W = Some code \<longrightarrow>
              get_token W ?cl code = Inr token \<longrightarrow>
              token \<noteq> JUndefined \<longrightarrow>
              (case mkdir_sync W (TOKEN_DIR self) of None \<Rightarrow> True
               | Some e \<Rightarrow> exn_code e = Some ''EEXIST'') \<longrightarrow>
              trace (authorize L W self) =
                [ReadFile (credentialsPath self),
                 ReadFile (TOKEN_PATH self),
                 ConsoleLog [LStr ''Authorize this app by visiting this url: '',
                             LStr (generateAuthUrl L ?cl ''offline'' (SCOPES self))],
                 Question ''Enter the code from that page here: '',
                 RlClose,
                 GetToken code,
                 MkdirSync (TOKEN_DIR self),
                 WriteFile (TOKEN_PATH self) (json_stringify L token),
                 ConsoleLog [LStr (''Token stored to '' @ TOKEN_PATH self)],
                 Resolve,
                 WriteFileDone (write_file W (TOKEN_PATH self) (json_stringify L token))]
              \<and> filter is_write (trace (authorize L W self)) =
                  [WriteFile (TOKEN_PATH self) (json_stringify L token)]
              \<and> outcome (authorize L W self) =
                  Resolved \<lparr> clientId = cid, clientSecret = cs, redirectUrl = ru,
                             credentials = token \<rparr>"
  proof (intro allI impI)
    fix code token
    assume l: "stdin_line W = Some code"
      and g: "get_token W ?cl code = Inr token"
      and d: "token \<noteq> JUndefined"
      and m: "case mkdir_sync W (TOKEN_DIR self) of None \<Rightarrow> True
              | Some e \<Rightarrow> exn_code e = Some ''EEXIST''"
    show "trace (authorize L W self) =
                [ReadFile (credentialsPath self),
                 ReadFile (TOKEN_PATH self),
                 ConsoleLog [LStr ''Authorize this app by visiting this url: '',
                             LStr (generateAuthUrl L ?cl ''offline'' (SCOPES self))],
                 Question ''Enter the code from that page here: '',
                 RlClose,
                 GetToken code,
                 MkdirSync (TOKEN_DIR self),
                 WriteFile (TOKEN_PATH self) (json_stringify L token),
                 ConsoleLog [LStr (''Token stored to '' @ TOKEN_PATH self)],
                 Resolve,
                 WriteFileDone (write_file W (TOKEN_PATH self) (json_stringify L token))]
              \<and> filter is_write (trace (authorize L W self)) =
                  [WriteFile (TOKEN_PATH self) (json_stringify L token)]
              \<and> outcome (authorize L W self) =
                  Resolved \<lparr> clientId = cid, clientSecret = cs, redirectUrl = ru,
                             credentials = token \<rparr>"
      by (simp add: tr oc getNewToken_stored [OF l g m d])
  qed
  from p1 p2 p3 p4 p5 show ?thesis by (intro conjI)
qed

theorem interactive_flow_stores_token_witness:
  "filter is_write (trace (authorize sample_platform
       (sample_world (Inr ''CREDENTIALS-JSON'')
          (Inl (enoent ''/home/u/.credentials/googleapis.json''))
          (Some (eexist ''/home/u/.credentials/'')) (Some ''4/code'') (Inr sample_token))
       sample_self)) =
     [WriteFile ''/home/u/.credentials/googleapis.json'' ''TOKEN-JSON'']
   \<and> filter is_exchange (trace (authorize sample_platform
       (sample_world (Inr ''CREDENTIALS-JSON'')
          (Inl (enoent ''/home/u/.credentials/googleapis.json''))
          (Some (eexist ''/home/u/.credentials/'')) (Some ''4/code'') (Inr sample_token))
       sample_self)) = [GetToken ''4/code'']
   \<and> outcome (authorize sample_platform
       (sample_world (Inr ''CREDENTIALS-JSON'')
          (Inl (enoent ''/home/u/.credentials/googleapis.json''))
          (Some (eexist ''/home/u/.credentials/'')) (Some ''4/code'') (Inr sample_token))
       sample_self) =
     Resolved \<lparr> clientId = JStr ''id-1'', clientSecret = JStr ''secret-1'',
                redirectUrl = JStr ''urn:ietf:wg:oauth:2.0:oob'', credentials = sample_token \<rparr>
   \<and> list_all
       (url_has_scope
          ''https://accounts.google.com/o/oauth2/auth?access_type=offline&scope=https%3A%2F%2Fwww.googleapis.com%2Fauth%2Fspreadsheets%20https%3A%2F%2Fwww.googleapis.com%2Fauth%2Fdrive'')
       [''https://www.googleapis.com/auth/spreadsheets'',
        ''https://www.googleapis.com/auth/drive'']
   \<and> outcome (authorize sample_platform
       (sample_world (Inr ''CREDENTIALS-JSON'')
          (Inl (enoent ''/home/u/.credentials/googleapis.json''))
          None None (Inr sample_token))
       sample_self) = Pending"
proof -
  let ?W = "sample_world (Inr ''CREDENTIALS-JSON'')
              (Inl (enoent ''/home/u/.credentials/googleapis.json''))
              (Some (eexist ''/home/u/.credentials/'')) (Some ''4/code'') (Inr sample_token)"
  let ?N = "sample_world (Inr ''CREDENTIALS-JSON'')
              (Inl (enoent ''/home/u/.credentials/googleapis.json''))
              None None (Inr sample_token)"
  let ?cl = "\<lparr> clientId = JStr ''id-1'', clientSecret = JStr ''secret-1'',
               redirectUrl = JStr ''urn:ietf:wg:oauth:2.0:oob'', credentials = JObj [] \<rparr>"
  have m: "case mkdir_sync ?W (TOKEN_DIR sample_self) of None \<Rightarrow> True
           | Some e \<Rightarrow> exn_code e = Some ''EEXIST''"
    by (simp add: sample_mkdir eexist_def)
  have ct: "\<forall>c access sc.
              list_all (url_has_scope (generateAuthUrl sample_platform c access sc)) sc"
    by (simp add: list_all_iff sample_platform_contract)
  note w = interactive_flow_stores_token
             [where W = "?W" and self = sample_self and L = sample_platform,
              OF sample_read_creds sample_parse_creds sample_installed_fields sample_read_cache ct]
  note n = interactive_flow_stores_token
             [where W = "?N" and self = sample_self and L = sample_platform,
              OF sample_read_creds sample_parse_creds sample_installed_fields sample_read_cache ct]
  from w [THEN conjunct2, THEN conjunct1]
  have u: "list_all (url_has_scope (generateAuthUrl sample_platform ?cl ''offline'' (SCOPES sample_self)))
             (SCOPES sample_self)" .
  from w [THEN conjunct2, THEN conjunct2, THEN conjunct2, THEN conjunct1, rule_format,
          OF sample_line]
  have x: "filter is_exchange (trace (authorize sample_platform ?W sample_self)) = [GetToken ''4/code'']" .
  from w [THEN conjunct2, THEN conjunct2, THEN conjunct2, THEN conjunct2, rule_format,
          OF sample_line sample_exchange sample_token_defined m]
  have f: "filter is_write (trace (authorize sample_platform ?W sample_self)) =
             [WriteFile (TOKEN_PATH sample_self) (json_stringify sample_platform sample_token)]"
    and o: "outcome (authorize sample_platform ?W sample_self) =
             Resolved \<lparr> clientId = JStr ''id-1'', clientSecret = JStr ''secret-1'',
                        redirectUrl = JStr ''urn:ietf:wg:oauth:2.0:oob'', credentials = sample_token \<rparr>"
    by (rule conjunct2 [THEN conjunct1], rule conjunct2 [THEN conjunct2])
  from n [THEN conjunct2, THEN conjunct2, THEN conjunct1, rule_format, OF sample_line]
  have p: "outcome (authorize sample_platform ?N sample_self) = Pending"
    by (rule conjunct2)
  have f': "filter is_write (trace (authorize sample_platform ?W sample_self)) =
             [WriteFile ''/home/u/.credentials/googleapis.json'' ''TOKEN-JSON'']"
    unfolding f by (simp add: sample_stringify sample_paths)
  have u': "list_all
       (url_has_scope
          ''https://accounts.google.com/o/oauth2/auth?access_type=offline&scope=https%3A%2F%2Fwww.googleapis.com%2Fauth%2Fspreadsheets%20https%3A%2F%2Fwww.googleapis.com%2Fauth%2Fdrive'')
       [''https://www.googleapis.com/auth/spreadsheets'',
        ''https://www.googleapis.com/auth/drive'']"
    using u unfolding sample_url by (simp add: sample_self_def)
  from f' x o u' p show ?thesis by (intro conjI)
qed

text \<open>
  C6. In the interactive path, if the token exchange fails, \<open>authorize()\<close> logs the
  error and then rejects with it; there is one exchange and no second one, no token is
  attached to the client (its credentials are as the constructor of the client left
  them), and the token store is not called.
\<close>

theorem exchange_failure_rejects:
  assumes "read_file W (credentialsPath self) = Inr content"
      and "json_parse L content = Inr (JObj kvs)"
      and "map_of kvs ''installed'' = Some (JObj ikvs)"
      and "map_of ikvs ''client_id'' = Some cid"
      and "map_of ikvs ''client_secret'' = Some cs"
      and "map_of ikvs ''redirect_uris'' = Some (JArr (ru # rus))"
      and "read_file W (TOKEN_PATH self) = Inl rerr"
      and "stdin_line W = Some code"
      and "get_token W \<lparr> clientId = cid, clientSecret = cs, redirectUrl = ru,
                         credentials = JObj [] \<rparr> code = Inl err"
  shows "outcome (authorize L W self) = Rejected err
         \<and> trace (authorize L W self) =
             [ReadFile (credentialsPath self),
              ReadFile (TOKEN_PATH self),
              ConsoleLog [LStr ''Authorize this app by visiting this url: '',
                          LStr (generateAuthUrl L
                                  \<lparr> clientId = cid, clientSecret = cs, redirectUrl = ru,
                                    credentials = JObj [] \<rparr>
                                  ''offline'' (SCOPES self))],
              Question ''Enter the code from that page here: '',
              RlClose,
              GetToken code,
              ConsoleLog [LStr ''Error while trying to retrieve access token'', LErr err],
              Reject err]
         \<and> filter is_exchange (trace (authorize L W self)) = [GetToken code]
         \<and> filter is_store (trace (authorize L W self)) = []
         \<and> oauth2Client (authorize L W self) =
             Some \<lparr> clientId = cid, clientSecret = cs, redirectUrl = ru, credentials = JObj [] \<rparr>
         \<and> uncaught (authorize L W self) = None"
  by (simp add: authorize_interactive [OF assms(1-7)]
        getNewToken_exchange_fails [OF assms(8) assms(9)] Let_def)

theorem exchange_failure_rejects_witness:
  "outcome (authorize sample_platform
       (sample_world (Inr ''CREDENTIALS-JSON'')
          (Inl (enoent ''/home/u/.credentials/googleapis.json''))
          None (Some ''bad-code'') (Inl (Exn ''Error'' ''invalid_grant'' None)))
       sample_self) = Rejected (Exn ''Error'' ''invalid_grant'' None)
   \<and> filter is_store (trace (authorize sample_platform
       (sample_world (Inr ''CREDENTIALS-JSON'')
          (Inl (enoent ''/home/u/.credentials/googleapis.json''))
          None (Some ''bad-code'') (Inl (Exn ''Error'' ''invalid_grant'' None)))
       sample_self)) = []
   \<and> filter is_exchange (trace (authorize sample_platform
       (sample_world (Inr ''CREDENTIALS-JSON'')
          (Inl (enoent ''/home/u/.credentials/googleapis.json''))
          None (Some ''bad-code'') (Inl (Exn ''Error'' ''invalid_grant'' None)))
       sample_self)) = [GetToken ''bad-code'']"
  using exchange_failure_rejects
          [OF sample_read_creds sample_parse_creds sample_installed_fields sample_read_cache
              sample_line sample_exchange]
  by blast

end
